theory Spec2Isabelle
  imports Main "HOL-Library.Word"
begin

section \<open>The Kafka datasource: data model\<close>

text \<open>
  A shallow embedding of \<^verbatim>\<open>pkg/kafka_helper/client.go\<close> and
  \<^verbatim>\<open>pkg/plugin/plugin.go\<close>. Calls into libraries (the Kafka client, the JSON
  decoder, the clock, the frame sender) are not part of the repository: the value such a
  call returns is an input of the model, and the call itself is recorded in a trace.
  Logging (\<^verbatim>\<open>log.DefaultLogger\<close>, \<^verbatim>\<open>fmt.Printf\<close>) takes no part in the
  control flow and is left out.
\<close>

type_synonym go_error = string
  \<comment> \<open>a non-nil Go \<^verbatim>\<open>error\<close>, by its message; nil is \<open>None\<close> of \<open>go_error option\<close>\<close>

type_synonym Time = int
  \<comment> \<open>a \<^verbatim>\<open>time.Time\<close> instant; the zero value is \<open>0\<close>\<close>

type_synonym float64 = "64 word"
  \<comment> \<open>a float64 by its IEEE-754 bit pattern: the plugin only copies these values\<close>

type_synonym int64 = "64 word"

type_synonym int32 = "32 word"

subsection \<open>Data frames (the parts of the SDK's \<^verbatim>\<open>data\<close> package the plugin uses)\<close>

datatype Vector = TimeVec "Time list" | Int64Vec "int64 list" | Float64Vec "float64 list"

datatype Value = TimeVal Time | Int64Val int64 | Float64Val float64

record Field =
  Name :: string
  Vals :: Vector

record FrameMeta =
  Channel :: string

record Frame =
  FrameName :: string
  Fields :: "Field list"
  Meta :: "FrameMeta option"

definition NewFrame :: "string \<Rightarrow> Frame" where
  "NewFrame name = \<lparr>FrameName = name, Fields = [], Meta = None\<rparr>"

definition NewField :: "string \<Rightarrow> Vector \<Rightarrow> Field" where
  \<comment> \<open>the labels argument is nil at every call\<close>
  "NewField name vals = \<lparr>Name = name, Vals = vals\<rparr>"

text \<open>
  \<^verbatim>\<open>Field.Set(idx, val)\<close> stores into the field's typed vector; it panics when the
  index is out of range or the value has another type (\<open>None\<close> here).
\<close>

fun Field_Set :: "Field \<Rightarrow> nat \<Rightarrow> Value \<Rightarrow> Field option" where
  "Field_Set f idx (TimeVal t) =
     (case Vals f of
        TimeVec xs \<Rightarrow> if idx < length xs then Some (f\<lparr>Vals := TimeVec (xs[idx := t])\<rparr>) else None
      | _ \<Rightarrow> None)"
| "Field_Set f idx (Int64Val n) =
     (case Vals f of
        Int64Vec xs \<Rightarrow> if idx < length xs then Some (f\<lparr>Vals := Int64Vec (xs[idx := n])\<rparr>) else None
      | _ \<Rightarrow> None)"
| "Field_Set f idx (Float64Val x) =
     (case Vals f of
        Float64Vec xs \<Rightarrow> if idx < length xs then Some (f\<lparr>Vals := Float64Vec (xs[idx := x])\<rparr>) else None
      | _ \<Rightarrow> None)"

definition SetMeta :: "Frame \<Rightarrow> FrameMeta \<Rightarrow> Frame" where
  "SetMeta frame m = frame\<lparr>Meta := Some m\<rparr>"

subsection \<open>Live channels\<close>

record live_Channel =
  Scope :: string
  Namespace :: string
  Path :: string

definition ScopeDatasource :: string where
  "ScopeDatasource = ''ds''"

definition Channel_String :: "live_Channel \<Rightarrow> string" where
  \<comment> \<open>the SDK's rendering of a channel as its identifier: scope/namespace/path\<close>
  "Channel_String c =
     (if Namespace c \<noteq> [] then
        (if Path c \<noteq> [] then Scope c @ ''/'' @ Namespace c @ ''/'' @ Path c
         else Scope c @ ''/'' @ Namespace c)
      else Scope c)"

subsection \<open>The Kafka client (\<^verbatim>\<open>kafka_helper\<close>)\<close>

type_synonym ErrorCode = int

definition ErrAllBrokersDown :: ErrorCode where
  \<comment> \<open>the client library's code for "all brokers are down"\<close>
  "ErrAllBrokersDown = - 187"

definition ErrTransport :: ErrorCode where
  \<comment> \<open>the client library's code for a broker transport failure\<close>
  "ErrTransport = - 195"

type_synonym ConfigMap = "(string \<times> string) list"

record KafkaClient =
  Consumer :: "ConfigMap option"
    \<comment> \<open>the consumer handle, by the configuration it was created with; \<open>None\<close> is nil\<close>
  BootstrapServers :: string
  AutoOffsetReset :: string

record Options =
  optBootstrapServers :: string
  optAutoOffsetReset :: string
  APIKey :: string

type_synonym KafkaMessage = "(string \<times> float64) list"
  \<comment> \<open>a Go \<^verbatim>\<open>map[string]float64\<close>: its entries in the order in which \<^verbatim>\<open>range\<close>
      enumerates them (an order the runtime chooses); the nil map and the empty map are \<open>[]\<close>\<close>

text \<open>
  A \<^verbatim>\<open>kafka.TopicPartition\<close>. Its two other fields are the same at the one place that
  builds it (\<^verbatim>\<open>Metadata\<close> points to an empty string, \<^verbatim>\<open>Error\<close> is nil) and are
  left out.
\<close>

record TopicPartition =
  tpTopic :: string
  tpPartition :: int32
  tpOffset :: int64

text \<open>An event returned by \<^verbatim>\<open>Consumer.Poll\<close>; a poll that times out returns nil (\<open>None\<close>).\<close>

datatype Event =
    MessageEv (Value: string) (Timestamp: Time)
  | ErrorEv (Code: ErrorCode)
  | OtherEv

datatype panic =
    PanicNewConsumer go_error
  | PanicAssign go_error
  | PanicKafkaError ErrorCode
  | PanicRuntime

text \<open>
  The calls into the Kafka client and the frame sender, in the order they are made.
  \<^verbatim>\<open>Poll\<close> carries its timeout, \<^verbatim>\<open>GetMetadata\<close> its three arguments (the topic
  pointed to, \<^verbatim>\<open>allTopics\<close>, the timeout); \<^verbatim>\<open>SendFrame\<close> is always called with
  \<^verbatim>\<open>data.IncludeAll\<close>.
\<close>

datatype call =
    NewConsumer ConfigMap
  | Assign "TopicPartition list"
  | Poll int
  | GetMetadata string bool int
  | SendFrame Frame

text \<open>
  What a function does: the calls it made, and either the panic that ended it or its
  result.
\<close>

type_synonym 'a run = "call list \<times> (panic + 'a)"

definition after :: "call list \<Rightarrow> 'a run \<Rightarrow> 'a run" where
  \<comment> \<open>the calls \<open>cs\<close>, then the run \<open>r\<close>\<close>
  "after cs r = (cs @ fst r, snd r)"

definition NewKafkaClient :: "Options \<Rightarrow> KafkaClient" where
  "NewKafkaClient options =
     \<lparr>Consumer = None, BootstrapServers = optBootstrapServers options,
      AutoOffsetReset = optAutoOffsetReset options\<rparr>"

definition consumer_config :: "KafkaClient \<Rightarrow> ConfigMap" where
  "consumer_config client =
     [(''bootstrap.servers'', BootstrapServers client),
      (''group.id'', ''grafana-kafka-datasource''),
      (''enable.auto.commit'', ''false''),
      (''auto.offset.reset'', AutoOffsetReset client)]"

text \<open>
  \<^verbatim>\<open>ConsumerInitialize\<close>: \<open>err\<close> is the error \<^verbatim>\<open>kafka.NewConsumer\<close> returned.
  Every use of the consumer handle in the code (\<^verbatim>\<open>Assign\<close>, \<^verbatim>\<open>Poll\<close>,
  \<^verbatim>\<open>GetMetadata\<close>) comes after a call of this function, which has either stored a
  handle or panicked.
\<close>

definition ConsumerInitialize :: "KafkaClient \<Rightarrow> go_error option \<Rightarrow> KafkaClient run" where
  "ConsumerInitialize client err =
     ([NewConsumer (consumer_config client)],
      case err of
        Some e \<Rightarrow> Inl (PanicNewConsumer e)
      | None \<Rightarrow> Inr (client\<lparr>Consumer := Some (consumer_config client)\<rparr>))"

text \<open>
  \<^verbatim>\<open>TopicAssign\<close>: \<open>err\<close> is the error \<^verbatim>\<open>Consumer.Assign\<close> returned.
\<close>

definition TopicAssign :: "string \<Rightarrow> int32 \<Rightarrow> int64 \<Rightarrow> go_error option \<Rightarrow> unit run" where
  "TopicAssign topic part offset err =
     (let topic_partition = \<lparr>tpTopic = topic, tpPartition = part, tpOffset = offset\<rparr>;
          partitions = [topic_partition]
      in ([Assign partitions],
          case err of
            Some e \<Rightarrow> Inl (PanicAssign e)
          | None \<Rightarrow> Inr ()))"

text \<open>
  \<^verbatim>\<open>ConsumerPull\<close>: \<open>ev\<close> is the result of \<^verbatim>\<open>Consumer.Poll(100)\<close>; \<open>unm\<close> is what
  \<^verbatim>\<open>json.Unmarshal(e.Value, &message)\<close> does on a message event: the entries it leaves
  in \<^verbatim>\<open>message\<close> and the error it returns. The code drops that error.
\<close>

definition ConsumerPull ::
  "Event option \<Rightarrow> KafkaMessage \<times> go_error option \<Rightarrow> (KafkaMessage \<times> Event option) run" where
  "ConsumerPull ev unm =
     ([Poll 100],
      case ev of
        None \<Rightarrow> Inr ([], ev)
      | Some (MessageEv v ts) \<Rightarrow> Inr (fst unm, ev)
      | Some (ErrorEv c) \<Rightarrow>
          if c = ErrAllBrokersDown then Inl (PanicKafkaError c) else Inr ([], ev)
      | Some OtherEv \<Rightarrow> Inr ([], ev))"

text \<open>
  \<^verbatim>\<open>HealthCheck\<close>: \<open>init_err\<close> is the error of \<^verbatim>\<open>kafka.NewConsumer\<close>, \<open>probe\<close> the
  error of \<^verbatim>\<open>Consumer.GetMetadata\<close> (a \<^verbatim>\<open>kafka.Error\<close>, by its code). The result is
  the error \<^verbatim>\<open>HealthCheck\<close> returns.
\<close>

definition HealthCheck ::
  "KafkaClient \<Rightarrow> go_error option \<Rightarrow> ErrorCode option \<Rightarrow> (ErrorCode option) run" where
  "HealthCheck client init_err probe =
     (case ConsumerInitialize client init_err of
        (cs, Inl p) \<Rightarrow> (cs, Inl p)
      | (cs, Inr client') \<Rightarrow>
          (let topic = []
           in (cs @ [GetMetadata topic False 200],
               case probe of
                 Some code \<Rightarrow> if code = ErrTransport then Inr (Some code) else Inr None
               | None \<Rightarrow> Inr None)))"

section \<open>The plugin (\<^verbatim>\<open>plugin\<close>)\<close>

record KafkaDatasource =
  client :: KafkaClient

record queryModel =
  Topic :: string
  Partition :: int32
  WithStreaming :: bool

definition zero_queryModel :: queryModel where
  \<comment> \<open>the value of \<^verbatim>\<open>var qm queryModel\<close>\<close>
  "zero_queryModel = \<lparr>Topic = [], Partition = 0, WithStreaming = False\<rparr>"

record PluginContext =
  UID :: string
    \<comment> \<open>\<^verbatim>\<open>DataSourceInstanceSettings.UID\<close>; the SDK serves a datasource instance only
        with its instance settings present\<close>

record TimeRange =
  From :: Time
  To :: Time

record DataQuery =
  RefID :: string
  JSON :: string
  QTimeRange :: TimeRange

record DataResponse =
  Frames :: "Frame list"
  Error :: "go_error option"

record QueryDataRequest =
  ReqContext :: PluginContext
  Queries :: "DataQuery list"

record QueryDataResponse =
  Responses :: "string \<rightharpoonup> DataResponse"

text \<open>
  \<^verbatim>\<open>Query\<close>. The parameter \<open>unmarshal\<close> is \<^verbatim>\<open>json.Unmarshal(query.JSON, &qm)\<close> on a
  fresh \<^verbatim>\<open>qm\<close>: the query model it leaves and the error it returns.
\<close>

definition Query ::
  "(string \<Rightarrow> queryModel \<times> go_error option) \<Rightarrow> PluginContext \<Rightarrow> DataQuery \<Rightarrow> DataResponse" where
  "Query unmarshal pCtx query =
     (let response = \<lparr>Frames = [], Error = None\<rparr>;
          (qm, err) = unmarshal (JSON query);
          response = response\<lparr>Error := err\<rparr>
      in if Error response \<noteq> None then response
         else
           let frame = NewFrame ''response'';
               frame = frame\<lparr>Fields := Fields frame @
                 [NewField ''time'' (TimeVec [From (QTimeRange query), To (QTimeRange query)]),
                  NewField ''values'' (Int64Vec [0, 0])]\<rparr>;
               frame =
                 (if WithStreaming qm then
                    let channel = \<lparr>Scope = ScopeDatasource, Namespace = UID pCtx, Path = ''stream''\<rparr>
                    in SetMeta frame \<lparr>Channel = Channel_String channel\<rparr>
                  else frame)
           in response\<lparr>Frames := Frames response @ [frame]\<rparr>)"

text \<open>\<^verbatim>\<open>QueryData\<close>: the loop over \<^verbatim>\<open>req.Queries\<close>, storing each response under its RefID.\<close>

fun query_loop ::
  "(string \<Rightarrow> queryModel \<times> go_error option) \<Rightarrow> PluginContext \<Rightarrow> DataQuery list \<Rightarrow>
   QueryDataResponse \<Rightarrow> QueryDataResponse" where
  "query_loop unmarshal pCtx [] response = response"
| "query_loop unmarshal pCtx (q # qs) response =
     (let res = Query unmarshal pCtx q
      in query_loop unmarshal pCtx qs (response\<lparr>Responses := (Responses response)(RefID q \<mapsto> res)\<rparr>))"

definition QueryData ::
  "(string \<Rightarrow> queryModel \<times> go_error option) \<Rightarrow> QueryDataRequest \<Rightarrow> QueryDataResponse" where
  "QueryData unmarshal req =
     query_loop unmarshal (ReqContext req) (Queries req) \<lparr>Responses = Map.empty\<rparr>"

datatype HealthStatus = HealthStatusUnknown | HealthStatusOk | HealthStatusError

record CheckHealthResult =
  Status :: HealthStatus
  Message :: string

definition CheckHealth ::
  "KafkaDatasource \<Rightarrow> go_error option \<Rightarrow> ErrorCode option \<Rightarrow> CheckHealthResult run" where
  "CheckHealth d init_err probe =
     (let status = HealthStatusOk;
          message = ''Data source is working...''
      in case HealthCheck (client d) init_err probe of
           (cs, Inl p) \<Rightarrow> (cs, Inl p)
         | (cs, Inr err) \<Rightarrow>
             if err \<noteq> None
             then (cs, Inr \<lparr>Status = HealthStatusError, Message = ''Cannot connect to the brokers.''\<rparr>)
             else (cs, Inr \<lparr>Status = status, Message = message\<rparr>))"

datatype SubscribeStreamStatus =
  SubscribeStreamStatusOK | SubscribeStreamStatusNotFound | SubscribeStreamStatusPermissionDenied

record SubscribeStreamRequest =
  SubPath :: string
  SubData :: string

record SubscribeStreamResponse =
  SubStatus :: SubscribeStreamStatus

definition SubscribeStream :: "SubscribeStreamRequest \<Rightarrow> SubscribeStreamResponse" where
  "SubscribeStream req =
     (let status = SubscribeStreamStatusPermissionDenied;
          status = (if SubPath req = ''stream'' then SubscribeStreamStatusOK else status)
      in \<lparr>SubStatus = status\<rparr>)"

subsection \<open>The streaming loop\<close>

text \<open>
  One pass of the \<^verbatim>\<open>for\<close>/\<^verbatim>\<open>select\<close> loop of \<^verbatim>\<open>RunStream\<close> is decided by what
  happens outside: either the context is done, or the one-second timer fires and the
  pass polls. A tick carries the answers of the library calls of that pass.
\<close>

record tick =
  polled :: "Event option"
    \<comment> \<open>the result of \<^verbatim>\<open>Consumer.Poll(100)\<close>\<close>
  unmarshal :: "KafkaMessage \<times> go_error option"
    \<comment> \<open>for a message event, what \<^verbatim>\<open>json.Unmarshal\<close> leaves in the map, and its error\<close>
  now :: Time
    \<comment> \<open>the reading of \<^verbatim>\<open>time.Now()\<close>\<close>
  send_err :: "go_error option"
    \<comment> \<open>the error \<^verbatim>\<open>sender.SendFrame\<close> returns\<close>

datatype iteration = CtxDone | Tick tick

datatype exit =
    Returned  \<comment> \<open>\<^verbatim>\<open>return nil\<close>\<close>
  | Waiting   \<comment> \<open>blocked in \<^verbatim>\<open>select\<close>: the loop has consumed everything that happened so far\<close>

text \<open>
  Lines 206 to 212: the loop over the decoded map, appending one float64 field per entry
  and storing the entry's value at index 0 of \<^verbatim>\<open>frame.Fields[cnt]\<close>. An index out of
  range and a panic of \<^verbatim>\<open>Set\<close> are \<open>PanicRuntime\<close>.
\<close>

fun add_fields :: "KafkaMessage \<Rightarrow> nat \<Rightarrow> Frame \<Rightarrow> panic + Frame" where
  "add_fields [] cnt frame = Inr frame"
| "add_fields ((key, val) # rest) cnt frame =
     (let frame = frame\<lparr>Fields := Fields frame @ [NewField key (Float64Vec (replicate 1 0))]\<rparr>
      in if cnt < length (Fields frame) then
           (case Field_Set (Fields frame ! cnt) 0 (Float64Val val) of
              None \<Rightarrow> Inl PanicRuntime
            | Some f \<Rightarrow> add_fields rest (cnt + 1) (frame\<lparr>Fields := (Fields frame)[cnt := f]\<rparr>))
         else Inl PanicRuntime)"

text \<open>Lines 199 to 212: the frame built for a polled event at time \<open>t\<close>.\<close>

definition stream_frame :: "Time \<Rightarrow> KafkaMessage \<Rightarrow> panic + Frame" where
  "stream_frame t msg_data =
     (let frame = NewFrame ''response'';
          frame = frame\<lparr>Fields := Fields frame @ [NewField ''time'' (TimeVec (replicate 1 0))]\<rparr>
      in if 0 < length (Fields frame) then
           (case Field_Set (Fields frame ! 0) 0 (TimeVal t) of
              None \<Rightarrow> Inl PanicRuntime
            | Some f \<Rightarrow>
                (let frame = frame\<lparr>Fields := (Fields frame)[0 := f]\<rparr>;
                     cnt = 1
                 in add_fields msg_data cnt frame))
         else Inl PanicRuntime)"

text \<open>
  The loop of \<^verbatim>\<open>RunStream\<close> over what happens outside. A failed send is logged and the
  loop goes on, as it does after a send that succeeded.
\<close>

fun stream_loop :: "iteration list \<Rightarrow> exit run" where
  "stream_loop [] = ([], Inr Waiting)"
| "stream_loop (CtxDone # rest) = ([], Inr Returned)"
| "stream_loop (Tick t # rest) =
     (case ConsumerPull (polled t) (unmarshal t) of
        (cs, Inl p) \<Rightarrow> (cs, Inl p)
      | (cs, Inr (msg_data, event)) \<Rightarrow>
          if event = None then after cs (stream_loop rest)
          else
            (case stream_frame (now t) msg_data of
               Inl p \<Rightarrow> (cs, Inl p)
             | Inr frame \<Rightarrow>
                 after (cs @ [SendFrame frame])
                   (if send_err t \<noteq> None then stream_loop rest else stream_loop rest)))"

record RunStreamRequest =
  RunPath :: string
  RunData :: string

record stream_env =
  new_consumer_err :: "go_error option"
    \<comment> \<open>the error of \<^verbatim>\<open>kafka.NewConsumer\<close>\<close>
  assign_err :: "go_error option"
    \<comment> \<open>the error of \<^verbatim>\<open>Consumer.Assign\<close>\<close>
  iterations :: "iteration list"

text \<open>
  \<^verbatim>\<open>RunStream\<close>. The query model \<^verbatim>\<open>qm\<close> is declared and read, and nothing is ever
  stored in it: the request is only logged.
\<close>

definition RunStream :: "KafkaDatasource \<Rightarrow> RunStreamRequest \<Rightarrow> stream_env \<Rightarrow> exit run" where
  "RunStream ds req env =
     (let qm = zero_queryModel
      in case ConsumerInitialize (client ds) (new_consumer_err env) of
           (cs1, Inl p) \<Rightarrow> (cs1, Inl p)
         | (cs1, Inr client') \<Rightarrow>
             (let offset = - 1;
                  topic = Topic qm;
                  part = Partition qm
              in case TopicAssign topic part offset (assign_err env) of
                   (cs2, Inl p) \<Rightarrow> (cs1 @ cs2, Inl p)
                 | (cs2, Inr u) \<Rightarrow> after (cs1 @ cs2) (stream_loop (iterations env))))"

datatype PublishStreamStatus =
  PublishStreamStatusOK | PublishStreamStatusNotFound | PublishStreamStatusPermissionDenied

record PublishStreamRequest =
  PubPath :: string
  PubData :: string

record PublishStreamResponse =
  PubStatus :: PublishStreamStatus

definition PublishStream :: "PublishStreamRequest \<Rightarrow> PublishStreamResponse" where
  "PublishStream req = \<lparr>PubStatus = PublishStreamStatusPermissionDenied\<rparr>"

section \<open>Predicates and sample data for the properties\<close>

text \<open>
  The shape of a streamed frame: a first field named \<open>time\<close> holding one instant, and
  after it only fields holding one float64 each.
\<close>

fun one_time :: "Vector \<Rightarrow> bool" where
  "one_time (TimeVec [t]) = True"
| "one_time v = False"

fun one_float64 :: "Vector \<Rightarrow> bool" where
  "one_float64 (Float64Vec [x]) = True"
| "one_float64 v = False"

definition stream_frame_shape :: "Frame \<Rightarrow> bool" where
  "stream_frame_shape f =
     (case Fields f of
        [] \<Rightarrow> False
      | tf # rest \<Rightarrow>
          Name tf = ''time'' \<and> one_time (Vals tf) \<and> list_all (\<lambda>g. one_float64 (Vals g)) rest)"

text \<open>
  A decoder for the examples. It gives the answers of \<^verbatim>\<open>json.Unmarshal\<close> into a fresh
  query model on two payloads: a full query object, and the empty object (which leaves
  the zero query model). Every other payload is answered with the error of the truncated
  document \<^verbatim>\<open>{\<close>, the only other payload the examples use.
\<close>

definition sample_unmarshal :: "string \<Rightarrow> queryModel \<times> go_error option" where
  \<open>sample_unmarshal js =
     (if js = ''{"topicName":"sensors","partition":3,"withStreaming":true}''
      then (\<lparr>Topic = ''sensors'', Partition = 3, WithStreaming = True\<rparr>, None)
      else if js = ''{}'' then (zero_queryModel, None)
      else (zero_queryModel, Some ''unexpected end of JSON input''))\<close>

section \<open>Queries\<close>

lemma Query_decoded:
  "unm (JSON q) = (qm, None) \<Longrightarrow>
   Query unm pCtx q =
     \<lparr>Frames =
        [\<lparr>FrameName = ''response'',
          Fields =
            [\<lparr>Name = ''time'', Vals = TimeVec [From (QTimeRange q), To (QTimeRange q)]\<rparr>,
             \<lparr>Name = ''values'', Vals = Int64Vec [0, 0]\<rparr>],
          Meta =
            (if WithStreaming qm
             then Some \<lparr>Channel =
                    Channel_String \<lparr>Scope = ''ds'', Namespace = UID pCtx, Path = ''stream''\<rparr>\<rparr>
             else None)\<rparr>],
      Error = None\<rparr>"
  by (simp add: Query_def NewFrame_def NewField_def SetMeta_def ScopeDatasource_def Let_def)

lemma Query_malformed:
  "unm (JSON q) = (qm, Some e) \<Longrightarrow> Query unm pCtx q = \<lparr>Frames = [], Error = Some e\<rparr>"
  by (simp add: Query_def)

text \<open>A response stored under a RefID stays there while no later query has that RefID.\<close>

lemma query_loop_keeps:
  "k \<notin> RefID ` set qs \<Longrightarrow> Responses (query_loop unm pCtx qs r) k = Responses r k"
  by (induction qs arbitrary: r) (auto simp: Let_def)

lemma query_loop_lookup:
  "distinct (map RefID qs) \<Longrightarrow> q \<in> set qs \<Longrightarrow>
   Responses (query_loop unm pCtx qs r) (RefID q) = Some (Query unm pCtx q)"
proof (induction qs arbitrary: r)
  case Nil
  then show ?case by simp
next
  case (Cons a qs)
  show ?case
  proof (cases "q = a")
    case True
    with Cons.prems show ?thesis by (simp add: Let_def query_loop_keeps)
  next
    case False
    with Cons.prems Cons.IH show ?thesis by (simp add: Let_def)
  qed
qed

text \<open>
  C6. A query whose JSON decodes gets a response with no error and exactly one frame,
  named \<open>response\<close>: a \<open>time\<close> field holding the query's time range \<open>[From, To]\<close>, a
  \<open>values\<close> field holding the placeholder \<open>[0, 0]\<close>, and frame metadata that is the
  channel of scope \<open>ds\<close>, the datasource's UID and path \<open>stream\<close> when the decoded
  \<open>withStreaming\<close> is set, and absent when it is not.
\<close>

theorem Query_single_frame:
  assumes "unm (JSON q) = (qm, None)"
  shows "Query unm pCtx q =
     \<lparr>Frames =
        [\<lparr>FrameName = ''response'',
          Fields =
            [\<lparr>Name = ''time'', Vals = TimeVec [From (QTimeRange q), To (QTimeRange q)]\<rparr>,
             \<lparr>Name = ''values'', Vals = Int64Vec [0, 0]\<rparr>],
          Meta =
            (if WithStreaming qm
             then Some \<lparr>Channel =
                    Channel_String \<lparr>Scope = ''ds'', Namespace = UID pCtx, Path = ''stream''\<rparr>\<rparr>
             else None)\<rparr>],
      Error = None\<rparr>"
  using assms by (rule Query_decoded)

theorem Query_single_frame_witness:
  \<open>sample_unmarshal ''{"topicName":"sensors","partition":3,"withStreaming":true}'' =
     (\<lparr>Topic = ''sensors'', Partition = 3, WithStreaming = True\<rparr>, None) \<and>
   Query sample_unmarshal \<lparr>UID = ''kafka1''\<rparr>
     \<lparr>RefID = ''A'',
      JSON = ''{"topicName":"sensors","partition":3,"withStreaming":true}'',
      QTimeRange = \<lparr>From = 100, To = 200\<rparr>\<rparr> =
     \<lparr>Frames =
        [\<lparr>FrameName = ''response'',
          Fields =
            [\<lparr>Name = ''time'', Vals = TimeVec [100, 200]\<rparr>,
             \<lparr>Name = ''values'', Vals = Int64Vec [0, 0]\<rparr>],
          Meta = Some \<lparr>Channel = ''ds/kafka1/stream''\<rparr>\<rparr>],
      Error = None\<rparr>\<close>
  using Query_single_frame
    [where unm = sample_unmarshal
       and q = \<open>\<lparr>RefID = ''A'',
             JSON = ''{"topicName":"sensors","partition":3,"withStreaming":true}'',
             QTimeRange = \<lparr>From = 100, To = 200\<rparr>\<rparr>\<close>
       and qm = "\<lparr>Topic = ''sensors'', Partition = 3, WithStreaming = True\<rparr>"
       and pCtx = "\<lparr>UID = ''kafka1''\<rparr>"]
  by (simp add: sample_unmarshal_def Channel_String_def)

text \<open>
  C7, as the code has it. The response \<^verbatim>\<open>Query\<close> gives for a query whose JSON fails to
  decode carries the decode error and no frame. In a request whose queries have distinct
  RefIDs, that response is the one stored under the query's RefID, and every other query
  of the request has, under its own RefID, the response it gets by itself.
\<close>

theorem QueryData_malformed_query:
  assumes "unm (JSON q) = (qm, Some e)"
  shows "Query unm (ReqContext req) q = \<lparr>Frames = [], Error = Some e\<rparr> \<and>
    (distinct (map RefID (Queries req)) \<and> q \<in> set (Queries req) \<longrightarrow>
       Responses (QueryData unm req) (RefID q) = Some \<lparr>Frames = [], Error = Some e\<rparr> \<and>
       (\<forall>q' \<in> set (Queries req). q' \<noteq> q \<longrightarrow>
          Responses (QueryData unm req) (RefID q') = Some (Query unm (ReqContext req) q')))"
proof (intro conjI impI)
  show own: "Query unm (ReqContext req) q = \<lparr>Frames = [], Error = Some e\<rparr>"
    using assms by (rule Query_malformed)
  assume d: "distinct (map RefID (Queries req)) \<and> q \<in> set (Queries req)"
  then have "Responses (QueryData unm req) (RefID q) = Some (Query unm (ReqContext req) q)"
    by (simp add: QueryData_def query_loop_lookup)
  then show "Responses (QueryData unm req) (RefID q) = Some \<lparr>Frames = [], Error = Some e\<rparr>"
    by (simp add: own)
  show "\<forall>q' \<in> set (Queries req). q' \<noteq> q \<longrightarrow>
       Responses (QueryData unm req) (RefID q') = Some (Query unm (ReqContext req) q')"
    using d by (simp add: QueryData_def query_loop_lookup)
qed

theorem QueryData_malformed_query_witness:
  \<open>Responses
     (QueryData sample_unmarshal
        \<lparr>ReqContext = \<lparr>UID = ''kafka1''\<rparr>,
         Queries =
           [\<lparr>RefID = ''A'', JSON = ''{'', QTimeRange = \<lparr>From = 100, To = 200\<rparr>\<rparr>,
            \<lparr>RefID = ''B'', JSON = ''{}'', QTimeRange = \<lparr>From = 100, To = 200\<rparr>\<rparr>]\<rparr>) ''A'' =
     Some \<lparr>Frames = [], Error = Some ''unexpected end of JSON input''\<rparr> \<and>
   Responses
     (QueryData sample_unmarshal
        \<lparr>ReqContext = \<lparr>UID = ''kafka1''\<rparr>,
         Queries =
           [\<lparr>RefID = ''A'', JSON = ''{'', QTimeRange = \<lparr>From = 100, To = 200\<rparr>\<rparr>,
            \<lparr>RefID = ''B'', JSON = ''{}'', QTimeRange = \<lparr>From = 100, To = 200\<rparr>\<rparr>]\<rparr>) ''B'' =
     Some \<lparr>Frames =
             [\<lparr>FrameName = ''response'',
               Fields =
                 [\<lparr>Name = ''time'', Vals = TimeVec [100, 200]\<rparr>,
                  \<lparr>Name = ''values'', Vals = Int64Vec [0, 0]\<rparr>],
               Meta = None\<rparr>],
           Error = None\<rparr>\<close>
  using QueryData_malformed_query
    [where unm = sample_unmarshal
       and q = "\<lparr>RefID = ''A'', JSON = ''{'', QTimeRange = \<lparr>From = 100, To = 200\<rparr>\<rparr>"
       and qm = zero_queryModel
       and e = "''unexpected end of JSON input''"
       and req =
         "\<lparr>ReqContext = \<lparr>UID = ''kafka1''\<rparr>,
           Queries =
             [\<lparr>RefID = ''A'', JSON = ''{'', QTimeRange = \<lparr>From = 100, To = 200\<rparr>\<rparr>,
              \<lparr>RefID = ''B'', JSON = ''{}'', QTimeRange = \<lparr>From = 100, To = 200\<rparr>\<rparr>]\<rparr>"]
  by (simp add: sample_unmarshal_def Query_def NewFrame_def NewField_def zero_queryModel_def)

text \<open>
  C7, as the claim states it, fails: \<^verbatim>\<open>QueryData\<close> stores each response under the
  query's RefID and does not check that RefIDs differ. When a malformed query and a
  well-formed one share the RefID \<open>A\<close>, the later response replaces the earlier one: with
  the malformed query first, the response under \<open>A\<close> has a frame and no error; with the
  malformed query last, the well-formed query's response is replaced by the error.
\<close>

theorem QueryData_shared_RefID_counterexample:
  \<open>Responses
     (QueryData sample_unmarshal
        \<lparr>ReqContext = \<lparr>UID = ''kafka1''\<rparr>,
         Queries =
           [\<lparr>RefID = ''A'', JSON = ''{'', QTimeRange = \<lparr>From = 100, To = 200\<rparr>\<rparr>,
            \<lparr>RefID = ''A'', JSON = ''{}'', QTimeRange = \<lparr>From = 100, To = 200\<rparr>\<rparr>]\<rparr>) ''A'' =
     Some \<lparr>Frames =
             [\<lparr>FrameName = ''response'',
               Fields =
                 [\<lparr>Name = ''time'', Vals = TimeVec [100, 200]\<rparr>,
                  \<lparr>Name = ''values'', Vals = Int64Vec [0, 0]\<rparr>],
               Meta = None\<rparr>],
           Error = None\<rparr> \<and>
   Responses
     (QueryData sample_unmarshal
        \<lparr>ReqContext = \<lparr>UID = ''kafka1''\<rparr>,
         Queries =
           [\<lparr>RefID = ''A'', JSON = ''{}'', QTimeRange = \<lparr>From = 100, To = 200\<rparr>\<rparr>,
            \<lparr>RefID = ''A'', JSON = ''{'', QTimeRange = \<lparr>From = 100, To = 200\<rparr>\<rparr>]\<rparr>) ''A'' =
     Some \<lparr>Frames = [], Error = Some ''unexpected end of JSON input''\<rparr>\<close>
  by (simp add: QueryData_def sample_unmarshal_def Query_def NewFrame_def NewField_def
      zero_queryModel_def)

section \<open>Health check\<close>

text \<open>
  C5, as the code has it. When the consumer is created, the health check returns the
  status ERROR with the message \<open>Cannot connect to the brokers.\<close> exactly when the
  metadata probe failed with the transport error code, and OK with
  \<open>Data source is working...\<close> otherwise, also when the probe failed with any other
  code. When \<^verbatim>\<open>kafka.NewConsumer\<close> fails, \<^verbatim>\<open>ConsumerInitialize\<close> panics and the health
  check returns no result.
\<close>

theorem CheckHealth_result:
  "snd (CheckHealth d None probe) =
     Inr (if probe = Some ErrTransport
          then \<lparr>Status = HealthStatusError, Message = ''Cannot connect to the brokers.''\<rparr>
          else \<lparr>Status = HealthStatusOk, Message = ''Data source is working...''\<rparr>) \<and>
   snd (CheckHealth d (Some e) probe) = Inl (PanicNewConsumer e)"
  by (simp add: CheckHealth_def HealthCheck_def ConsumerInitialize_def Let_def
      split: option.splits)

text \<open>
  C5, as the claim states it, fails: a datasource configured with an offset reset policy
  the client library rejects gets a panic from its health check, not a result, although
  no probe failed with a transport error.
\<close>

theorem CheckHealth_panics_counterexample:
  "snd (CheckHealth
          \<lparr>client = \<lparr>Consumer = None, BootstrapServers = ''localhost:9092'',
                      AutoOffsetReset = ''newest''\<rparr>\<rparr>
          (Some ''Invalid value for configuration property auto.offset.reset'') None) =
     Inl (PanicNewConsumer ''Invalid value for configuration property auto.offset.reset'')"
  by (simp add: CheckHealth_def HealthCheck_def ConsumerInitialize_def)

section \<open>Subscribing and publishing\<close>

text \<open>
  C8. A subscribe request is granted (status OK) exactly when its path is the string
  \<open>stream\<close>, and gets PermissionDenied for every other path; the empty path and the
  path \<open>Stream\<close> are denied.
\<close>

theorem SubscribeStream_only_stream:
  "SubStatus (SubscribeStream req) =
     (if SubPath req = ''stream'' then SubscribeStreamStatusOK
      else SubscribeStreamStatusPermissionDenied) \<and>
   (SubStatus (SubscribeStream req) = SubscribeStreamStatusOK) = (SubPath req = ''stream'') \<and>
   SubStatus (SubscribeStream \<lparr>SubPath = [], SubData = dat\<rparr>) =
     SubscribeStreamStatusPermissionDenied \<and>
   SubStatus (SubscribeStream \<lparr>SubPath = ''Stream'', SubData = dat\<rparr>) =
     SubscribeStreamStatusPermissionDenied"
  by (simp add: SubscribeStream_def)

text \<open>
  C9. Every publish request, whatever its path and payload, is answered with the status
  PermissionDenied.
\<close>

theorem PublishStream_denied:
  "PubStatus (PublishStream req) = PublishStreamStatusPermissionDenied"
  by (simp add: PublishStream_def)

section \<open>The streaming loop\<close>

subsection \<open>The frame of one pass\<close>

lemma add_fields_appends:
  "cnt = length (Fields frame) \<Longrightarrow>
   add_fields m cnt frame =
     Inr (frame\<lparr>Fields :=
            Fields frame @ map (\<lambda>(k, x). \<lparr>Name = k, Vals = Float64Vec [x]\<rparr>) m\<rparr>)"
proof (induction m arbitrary: cnt frame)
  case Nil
  then show ?case by simp
next
  case (Cons kv m)
  obtain k x where kv: "kv = (k, x)" by (cases kv)
  show ?case using Cons.prems
    by (simp add: kv Cons.IH NewField_def nth_append Let_def)
qed

lemma stream_frame_built:
  "stream_frame t m =
     Inr \<lparr>FrameName = ''response'',
          Fields =
            \<lparr>Name = ''time'', Vals = TimeVec [t]\<rparr> #
            map (\<lambda>(k, x). \<lparr>Name = k, Vals = Float64Vec [x]\<rparr>) m,
          Meta = None\<rparr>"
  by (simp add: stream_frame_def NewFrame_def NewField_def add_fields_appends Let_def)

lemma stream_frame_shape_built:
  "stream_frame_shape
     \<lparr>FrameName = n,
      Fields =
        \<lparr>Name = ''time'', Vals = TimeVec [t]\<rparr> #
        map (\<lambda>(k, x). \<lparr>Name = k, Vals = Float64Vec [x]\<rparr>) m,
      Meta = mt\<rparr>"
  by (induction m) (auto simp: stream_frame_shape_def list_all_iff)

text \<open>The fields built from the entries of the map: their names, and which fields there are.\<close>

lemma float64_fields_names:
  "map Name (map (\<lambda>(k, x). \<lparr>Name = k, Vals = Float64Vec [x]\<rparr>) m) = map fst m"
  by (induction m) auto

lemma float64_fields_member:
  "(\<lparr>Name = k, Vals = Float64Vec [x]\<rparr>
      \<in> set (map (\<lambda>(k, x). \<lparr>Name = k, Vals = Float64Vec [x]\<rparr>) m)) =
   ((k, x) \<in> set m)"
  by (induction m) auto

subsection \<open>One pass of the loop, by what the poll returned\<close>

lemma stream_loop_timeout:
  "polled t = None \<Longrightarrow> stream_loop (Tick t # rest) = after [Poll 100] (stream_loop rest)"
  by (simp add: ConsumerPull_def)

lemma stream_loop_message:
  "polled t = Some (MessageEv v ts) \<Longrightarrow>
   stream_loop (Tick t # rest) =
     after [Poll 100,
            SendFrame
              \<lparr>FrameName = ''response'',
               Fields =
                 \<lparr>Name = ''time'', Vals = TimeVec [now t]\<rparr> #
                 map (\<lambda>(k, x). \<lparr>Name = k, Vals = Float64Vec [x]\<rparr>) (fst (unmarshal t)),
               Meta = None\<rparr>]
       (stream_loop rest)"
  by (simp add: ConsumerPull_def stream_frame_built)

lemma stream_loop_error:
  "polled t = Some (ErrorEv c) \<Longrightarrow>
   stream_loop (Tick t # rest) =
     (if c = ErrAllBrokersDown then ([Poll 100], Inl (PanicKafkaError c))
      else after [Poll 100,
                  SendFrame
                    \<lparr>FrameName = ''response'',
                     Fields = [\<lparr>Name = ''time'', Vals = TimeVec [now t]\<rparr>],
                     Meta = None\<rparr>]
             (stream_loop rest))"
  by (simp add: ConsumerPull_def stream_frame_built)

lemma stream_loop_other:
  "polled t = Some OtherEv \<Longrightarrow>
   stream_loop (Tick t # rest) =
     after [Poll 100,
            SendFrame
              \<lparr>FrameName = ''response'',
               Fields = [\<lparr>Name = ''time'', Vals = TimeVec [now t]\<rparr>],
               Meta = None\<rparr>]
       (stream_loop rest)"
  by (simp add: ConsumerPull_def stream_frame_built)

subsection \<open>The whole loop\<close>

text \<open>The only panic that ends the loop is the one raised for the all-brokers-down error.\<close>

lemma stream_loop_panic:
  "snd (stream_loop its) = Inl p \<Longrightarrow> p = PanicKafkaError ErrAllBrokersDown"
proof (induction its)
  case Nil
  then show ?case by simp
next
  case (Cons it rest)
  show ?case
  proof (cases it)
    case CtxDone
    with Cons.prems show ?thesis by simp
  next
    case (Tick t)
    show ?thesis
    proof (cases "polled t")
      case None
      with Cons Tick show ?thesis
        by (simp del: stream_loop.simps(3) add: stream_loop_timeout after_def)
    next
      case (Some ev)
      show ?thesis
      proof (cases ev)
        case (MessageEv v ts)
        with Some Cons Tick show ?thesis
          by (simp del: stream_loop.simps(3) add: stream_loop_message after_def)
      next
        case (ErrorEv c)
        with Some Cons Tick show ?thesis
          by (simp del: stream_loop.simps(3) add: stream_loop_error after_def split: if_splits)
      next
        case OtherEv
        with Some Cons Tick show ?thesis
          by (simp del: stream_loop.simps(3) add: stream_loop_other after_def)
      qed
    qed
  qed
qed

text \<open>Every frame the loop sends has the shape of a streamed frame.\<close>

lemma stream_loop_frames:
  "SendFrame f \<in> set (fst (stream_loop its)) \<Longrightarrow> stream_frame_shape f"
proof (induction its)
  case Nil
  then show ?case by simp
next
  case (Cons it rest)
  show ?case
  proof (cases it)
    case CtxDone
    with Cons.prems show ?thesis by simp
  next
    case (Tick t)
    show ?thesis
    proof (cases "polled t")
      case None
      with Cons Tick show ?thesis
        by (simp del: stream_loop.simps(3) add: stream_loop_timeout after_def)
    next
      case (Some ev)
      show ?thesis
      proof (cases ev)
        case (MessageEv v ts)
        with Some Cons Tick show ?thesis
          by (auto simp del: stream_loop.simps(3)
                simp: stream_loop_message after_def stream_frame_shape_built)
      next
        case (ErrorEv c)
        with Some Cons Tick stream_frame_shape_built [of _ _ "[]"] show ?thesis
          by (auto simp del: stream_loop.simps(3)
                simp: stream_loop_error after_def split: if_splits)
      next
        case OtherEv
        with Some Cons Tick stream_frame_shape_built [of _ _ "[]"] show ?thesis
          by (auto simp del: stream_loop.simps(3) simp: stream_loop_other after_def)
      qed
    qed
  qed
qed

text \<open>The loop itself only polls and sends.\<close>

lemma stream_loop_calls:
  "c \<in> set (fst (stream_loop its)) \<Longrightarrow> c = Poll 100 \<or> (\<exists>f. c = SendFrame f)"
proof (induction its)
  case Nil
  then show ?case by simp
next
  case (Cons it rest)
  show ?case
  proof (cases it)
    case CtxDone
    with Cons.prems show ?thesis by simp
  next
    case (Tick t)
    show ?thesis
    proof (cases "polled t")
      case None
      with Cons Tick show ?thesis
        by (auto simp del: stream_loop.simps(3) simp: stream_loop_timeout after_def)
    next
      case (Some ev)
      show ?thesis
      proof (cases ev)
        case (MessageEv v ts)
        with Some Cons Tick show ?thesis
          by (auto simp del: stream_loop.simps(3) simp: stream_loop_message after_def)
      next
        case (ErrorEv c)
        with Some Cons Tick show ?thesis
          by (auto simp del: stream_loop.simps(3)
                simp: stream_loop_error after_def split: if_splits)
      next
        case OtherEv
        with Some Cons Tick show ?thesis
          by (auto simp del: stream_loop.simps(3) simp: stream_loop_other after_def)
      qed
    qed
  qed
qed

subsection \<open>Starting the stream\<close>

text \<open>
  When the consumer is created and the assignment succeeds, \<^verbatim>\<open>RunStream\<close> creates the
  consumer, assigns it, and only then enters the loop: the assignment is to the empty
  topic, partition 0 and offset -1, whatever the request.
\<close>

lemma RunStream_started:
  "new_consumer_err env = None \<Longrightarrow> assign_err env = None \<Longrightarrow>
   RunStream ds req env =
     after [NewConsumer (consumer_config (client ds)),
            Assign [\<lparr>tpTopic = [], tpPartition = 0, tpOffset = - 1\<rparr>]]
       (stream_loop (iterations env))"
  by (simp add: RunStream_def ConsumerInitialize_def TopicAssign_def zero_queryModel_def Let_def)

lemma RunStream_request_unused: "RunStream ds req env = RunStream ds req' env"
  by (simp add: RunStream_def)

lemma RunStream_calls:
  "set (fst (RunStream ds req env)) \<subseteq>
     {NewConsumer (consumer_config (client ds)),
      Assign [\<lparr>tpTopic = [], tpPartition = 0, tpOffset = - 1\<rparr>]} \<union>
     set (fst (stream_loop (iterations env)))"
  by (auto simp: RunStream_def ConsumerInitialize_def TopicAssign_def zero_queryModel_def Let_def
        after_def split: option.splits)

text \<open>No poll is made when the consumer cannot be created or assigned.\<close>

lemma RunStream_not_started:
  "new_consumer_err env \<noteq> None \<or> assign_err env \<noteq> None \<Longrightarrow>
   Poll n \<notin> set (fst (RunStream ds req env)) \<and> isl (snd (RunStream ds req env))"
  by (auto simp: RunStream_def ConsumerInitialize_def TopicAssign_def Let_def
        split: option.splits)

subsection \<open>Properties of the stream\<close>

text \<open>
  C1. The claim is that \<^verbatim>\<open>RunStream\<close> assigns the consumer to the topic and partition of
  the subscription's request. The code reads both from the query model \<open>qm\<close>, which it
  declares and never fills: for a request on path \<open>stream\<close> whose data name the topic
  \<open>sensors\<close> and partition 3, the consumer is created, then assigned to the empty topic,
  partition 0, offset -1, and then polled.
\<close>

theorem RunStream_assigns_zero_queryModel:
  \<open>RunStream
     \<lparr>client = \<lparr>Consumer = None, BootstrapServers = ''localhost:9092'',
                 AutoOffsetReset = ''latest''\<rparr>\<rparr>
     \<lparr>RunPath = ''stream'',
      RunData = ''{"topicName":"sensors","partition":3,"withStreaming":true}''\<rparr>
     \<lparr>new_consumer_err = None, assign_err = None,
      iterations =
        [Tick \<lparr>polled = None, unmarshal = ([], None), now = 1000, send_err = None\<rparr>,
         CtxDone]\<rparr> =
   ([NewConsumer
       [(''bootstrap.servers'', ''localhost:9092''),
        (''group.id'', ''grafana-kafka-datasource''),
        (''enable.auto.commit'', ''false''),
        (''auto.offset.reset'', ''latest'')],
     Assign [\<lparr>tpTopic = [], tpPartition = 0, tpOffset = - 1\<rparr>],
     Poll 100],
    Inr Returned)\<close>
  by (simp add: RunStream_def ConsumerInitialize_def TopicAssign_def zero_queryModel_def
      consumer_config_def ConsumerPull_def after_def Let_def)

text \<open>
  C2, as the code has it. \<^verbatim>\<open>ConsumerPull\<close> drops the error of \<^verbatim>\<open>json.Unmarshal\<close>. For
  a polled message event whose payload fails to decode, the loop still hands one frame to
  the sender in that pass: the \<open>time\<close> field holding the time of the pass, followed by
  one float64 field for each entry the decoder left in the map (none, when it left the
  map empty). The loop then goes on with the next pass.
\<close>

theorem decode_failure_frame:
  assumes "polled t = Some (MessageEv v ts)"
    and "unmarshal t = (m, Some e)"
  shows "stream_loop (Tick t # rest) =
     after [Poll 100,
            SendFrame
              \<lparr>FrameName = ''response'',
               Fields =
                 \<lparr>Name = ''time'', Vals = TimeVec [now t]\<rparr> #
                 map (\<lambda>(k, x). \<lparr>Name = k, Vals = Float64Vec [x]\<rparr>) m,
               Meta = None\<rparr>]
       (stream_loop rest)"
  using assms by (simp del: stream_loop.simps(3) add: stream_loop_message)

theorem decode_failure_frame_witness:
  "stream_loop
     [Tick \<lparr>polled = Some (MessageEv ''[1, 2]'' 1000),
            unmarshal =
              ([], Some ''json: cannot unmarshal array into Go value of type kafka_helper.KafkaMessage''),
            now = 2000, send_err = None\<rparr>,
      CtxDone] =
   ([Poll 100,
     SendFrame
       \<lparr>FrameName = ''response'',
        Fields = [\<lparr>Name = ''time'', Vals = TimeVec [2000]\<rparr>],
        Meta = None\<rparr>],
    Inr Returned)"
  using decode_failure_frame
    [where t = "\<lparr>polled = Some (MessageEv ''[1, 2]'' 1000),
            unmarshal =
              ([], Some ''json: cannot unmarshal array into Go value of type kafka_helper.KafkaMessage''),
            now = 2000, send_err = None\<rparr>"
       and v = "''[1, 2]''" and ts = 1000 and m = "[]"
       and e = "''json: cannot unmarshal array into Go value of type kafka_helper.KafkaMessage''"
       and rest = "[CtxDone]"]
  by (simp add: after_def)

text \<open>
  C2, as the claim states it, fails: the payload \<^verbatim>\<open>{\<close> is not a JSON document, the
  decoder returns an error and leaves the map nil, and the loop sends a frame for that
  message all the same.
\<close>

theorem decode_failure_counterexample:
  "stream_loop
     [Tick \<lparr>polled = Some (MessageEv ''{'' 1000),
            unmarshal = ([], Some ''unexpected end of JSON input''),
            now = 2000, send_err = None\<rparr>] =
   ([Poll 100,
     SendFrame
       \<lparr>FrameName = ''response'',
        Fields = [\<lparr>Name = ''time'', Vals = TimeVec [2000]\<rparr>],
        Meta = None\<rparr>],
    Inr Waiting)"
  by (simp add: ConsumerPull_def stream_frame_built after_def)

text \<open>
  C3, as the code has it. For a polled message event whose payload decodes to a map, the
  loop hands the sender one frame: its first field is \<open>time\<close> and holds the time read in
  that pass (the message's own timestamp is not used); after it comes one field per
  entry of the map, named by the key and holding the entry's value, in the order in
  which the \<^verbatim>\<open>range\<close> over the map visits the entries. That order is chosen by the Go
  runtime and is not the order of the keys in the payload. The keys of a map are
  distinct: then the field names after \<open>time\<close> are the keys, each once, and a field of
  name \<open>k\<close> holding \<open>x\<close> is in the frame exactly when the map has \<open>x\<close> at \<open>k\<close>.
\<close>

theorem decoded_message_row:
  assumes "polled t = Some (MessageEv v ts)"
    and "unmarshal t = (m, None)"
  shows "stream_loop (Tick t # rest) =
     after [Poll 100,
            SendFrame
              \<lparr>FrameName = ''response'',
               Fields =
                 \<lparr>Name = ''time'', Vals = TimeVec [now t]\<rparr> #
                 map (\<lambda>(k, x). \<lparr>Name = k, Vals = Float64Vec [x]\<rparr>) m,
               Meta = None\<rparr>]
       (stream_loop rest) \<and>
     map Name (map (\<lambda>(k, x). \<lparr>Name = k, Vals = Float64Vec [x]\<rparr>) m) = map fst m \<and>
     (distinct (map fst m) \<longrightarrow>
        distinct (map Name (map (\<lambda>(k, x). \<lparr>Name = k, Vals = Float64Vec [x]\<rparr>) m)) \<and>
        (\<forall>k x. (\<lparr>Name = k, Vals = Float64Vec [x]\<rparr>
                  \<in> set (map (\<lambda>(k, x). \<lparr>Name = k, Vals = Float64Vec [x]\<rparr>) m)) =
               (map_of m k = Some x)))"
proof (intro conjI impI allI)
  show "stream_loop (Tick t # rest) =
     after [Poll 100,
            SendFrame
              \<lparr>FrameName = ''response'',
               Fields =
                 \<lparr>Name = ''time'', Vals = TimeVec [now t]\<rparr> #
                 map (\<lambda>(k, x). \<lparr>Name = k, Vals = Float64Vec [x]\<rparr>) m,
               Meta = None\<rparr>]
       (stream_loop rest)"
    using assms by (simp del: stream_loop.simps(3) add: stream_loop_message)
next
  show "map Name (map (\<lambda>(k, x). \<lparr>Name = k, Vals = Float64Vec [x]\<rparr>) m) = map fst m"
    by (rule float64_fields_names)
next
  assume "distinct (map fst m)"
  then show "distinct (map Name (map (\<lambda>(k, x). \<lparr>Name = k, Vals = Float64Vec [x]\<rparr>) m))"
    by (simp only: float64_fields_names)
next
  fix k x
  assume "distinct (map fst m)"
  then show "(\<lparr>Name = k, Vals = Float64Vec [x]\<rparr>
                  \<in> set (map (\<lambda>(k, x). \<lparr>Name = k, Vals = Float64Vec [x]\<rparr>) m)) =
               (map_of m k = Some x)"
    by (simp only: float64_fields_member map_of_eq_Some_iff)
qed

text \<open>
  The payload \<^verbatim>\<open>{"a": 1.0, "b": 2.5}\<close>, produced at time 1000 and polled at time 2000,
  in a pass where the loop over the map visits \<open>a\<close> first. The float64 values 1.0 and 2.5
  are the bit patterns \<open>0x3FF0000000000000\<close> and \<open>0x4004000000000000\<close>.
\<close>

theorem decoded_message_row_witness:
  \<open>distinct (map fst [(''a'', 0x3FF0000000000000 :: float64), (''b'', 0x4004000000000000)]) \<and>
   stream_loop
     [Tick \<lparr>polled = Some (MessageEv ''{"a": 1.0, "b": 2.5}'' 1000),
            unmarshal = ([(''a'', 0x3FF0000000000000), (''b'', 0x4004000000000000)], None),
            now = 2000, send_err = None\<rparr>,
      CtxDone] =
   ([Poll 100,
     SendFrame
       \<lparr>FrameName = ''response'',
        Fields =
          [\<lparr>Name = ''time'', Vals = TimeVec [2000]\<rparr>,
           \<lparr>Name = ''a'', Vals = Float64Vec [0x3FF0000000000000]\<rparr>,
           \<lparr>Name = ''b'', Vals = Float64Vec [0x4004000000000000]\<rparr>],
        Meta = None\<rparr>],
    Inr Returned)\<close>
  using decoded_message_row
    [where t = \<open>\<lparr>polled = Some (MessageEv ''{"a": 1.0, "b": 2.5}'' 1000),
            unmarshal = ([(''a'', 0x3FF0000000000000), (''b'', 0x4004000000000000)], None),
            now = 2000, send_err = None\<rparr>\<close>
       and v = \<open>''{"a": 1.0, "b": 2.5}''\<close> and ts = 1000
       and m = "[(''a'', 0x3FF0000000000000), (''b'', 0x4004000000000000)]"
       and rest = "[CtxDone]"]
  by (simp add: after_def)

text \<open>
  C3, as the claim states it, fails: the columns need not come in the order of the keys
  in the payload. The decoded message is a Go map, and the order in which \<^verbatim>\<open>range\<close>
  visits it is the runtime's choice. For the payload \<^verbatim>\<open>{"a": 1.0, "b": 2.5}\<close>, in a pass
  where the loop over the map visits \<open>b\<close> first, the frame has the columns
  \<open>time\<close>, \<open>b\<close>, \<open>a\<close>.
\<close>

theorem decoded_message_order_counterexample:
  \<open>stream_loop
     [Tick \<lparr>polled = Some (MessageEv ''{"a": 1.0, "b": 2.5}'' 1000),
            unmarshal = ([(''b'', 0x4004000000000000), (''a'', 0x3FF0000000000000)], None),
            now = 2000, send_err = None\<rparr>,
      CtxDone] =
   ([Poll 100,
     SendFrame
       \<lparr>FrameName = ''response'',
        Fields =
          [\<lparr>Name = ''time'', Vals = TimeVec [2000]\<rparr>,
           \<lparr>Name = ''b'', Vals = Float64Vec [0x4004000000000000]\<rparr>,
           \<lparr>Name = ''a'', Vals = Float64Vec [0x3FF0000000000000]\<rparr>],
        Meta = None\<rparr>],
    Inr Returned)\<close>
  by (simp add: ConsumerPull_def stream_frame_built after_def)

text \<open>
  C4. A poll ends in a panic exactly when it returned the error event with the
  all-brokers-down code. In the loop, that event ends the run with the panic, right
  after the poll; an error event with any other code does not end it: the loop goes on
  with the next pass (after sending a frame that has only the time field). No other
  panic ends the loop.
\<close>

theorem poll_error_policy:
  "isl (snd (ConsumerPull ev unm)) = (ev = Some (ErrorEv ErrAllBrokersDown)) \<and>
   (polled t = Some (ErrorEv c) \<longrightarrow>
      stream_loop (Tick t # rest) =
        (if c = ErrAllBrokersDown then ([Poll 100], Inl (PanicKafkaError c))
         else after [Poll 100,
                     SendFrame
                       \<lparr>FrameName = ''response'',
                        Fields = [\<lparr>Name = ''time'', Vals = TimeVec [now t]\<rparr>],
                        Meta = None\<rparr>]
                (stream_loop rest))) \<and>
   (snd (stream_loop its) = Inl p \<longrightarrow> p = PanicKafkaError ErrAllBrokersDown)"
proof (intro conjI impI)
  show "isl (snd (ConsumerPull ev unm)) = (ev = Some (ErrorEv ErrAllBrokersDown))"
    by (simp add: ConsumerPull_def split: option.splits Event.splits)
next
  assume "polled t = Some (ErrorEv c)"
  then show "stream_loop (Tick t # rest) =
        (if c = ErrAllBrokersDown then ([Poll 100], Inl (PanicKafkaError c))
         else after [Poll 100,
                     SendFrame
                       \<lparr>FrameName = ''response'',
                        Fields = [\<lparr>Name = ''time'', Vals = TimeVec [now t]\<rparr>],
                        Meta = None\<rparr>]
                (stream_loop rest))"
    by (rule stream_loop_error)
next
  assume "snd (stream_loop its) = Inl p"
  then show "p = PanicKafkaError ErrAllBrokersDown"
    by (rule stream_loop_panic)
qed

text \<open>
  A transport error (code -195) followed by the all-brokers-down error (code -187): the
  first is passed over, the second ends the run, and the pass after it never polls.
\<close>

theorem poll_error_policy_witness:
  "\<not> isl (snd (ConsumerPull (Some (ErrorEv (- 195))) ([], None))) \<and>
   isl (snd (ConsumerPull (Some (ErrorEv (- 187))) ([], None))) \<and>
   stream_loop
     [Tick \<lparr>polled = Some (ErrorEv (- 195)), unmarshal = ([], None), now = 2000,
            send_err = None\<rparr>,
      Tick \<lparr>polled = Some (ErrorEv (- 187)), unmarshal = ([], None), now = 3000,
            send_err = None\<rparr>,
      Tick \<lparr>polled = None, unmarshal = ([], None), now = 4000, send_err = None\<rparr>] =
   ([Poll 100,
     SendFrame
       \<lparr>FrameName = ''response'',
        Fields = [\<lparr>Name = ''time'', Vals = TimeVec [2000]\<rparr>],
        Meta = None\<rparr>,
     Poll 100],
    Inl (PanicKafkaError (- 187)))"
  using poll_error_policy
    [where ev = "Some (ErrorEv (- 195))" and unm = "([], None)"
       and t = "\<lparr>polled = Some (ErrorEv (- 195)), unmarshal = ([], None), now = 2000,
                  send_err = None\<rparr>"
       and c = "- 195"
       and rest =
         "[Tick \<lparr>polled = Some (ErrorEv (- 187)), unmarshal = ([], None), now = 3000,
                 send_err = None\<rparr>,
           Tick \<lparr>polled = None, unmarshal = ([], None), now = 4000, send_err = None\<rparr>]"
       and its = "[Tick \<lparr>polled = Some (ErrorEv (- 187)), unmarshal = ([], None), now = 3000,
                 send_err = None\<rparr>]"
       and p = "PanicKafkaError (- 187)"]
  by (simp add: ConsumerPull_def ErrAllBrokersDown_def stream_frame_built after_def)

text \<open>
  C10. Every frame \<^verbatim>\<open>RunStream\<close> hands to the sender has a first field named \<open>time\<close>
  that holds exactly one instant, and each field after it holds exactly one float64.
  For a message whose decoded map is empty, the frame is the time field alone.
\<close>

theorem streamed_frame_shape:
  "(SendFrame f \<in> set (fst (RunStream ds req env)) \<longrightarrow> stream_frame_shape f) \<and>
   (polled t = Some (MessageEv v ts) \<and> fst (unmarshal t) = [] \<longrightarrow>
      stream_loop (Tick t # rest) =
        after [Poll 100,
               SendFrame
                 \<lparr>FrameName = ''response'',
                  Fields = [\<lparr>Name = ''time'', Vals = TimeVec [now t]\<rparr>],
                  Meta = None\<rparr>]
          (stream_loop rest))"
proof (intro conjI impI)
  assume "SendFrame f \<in> set (fst (RunStream ds req env))"
  with RunStream_calls [of ds req env]
  have "SendFrame f \<in> set (fst (stream_loop (iterations env)))"
    by auto
  then show "stream_frame_shape f"
    by (rule stream_loop_frames)
next
  assume "polled t = Some (MessageEv v ts) \<and> fst (unmarshal t) = []"
  then show "stream_loop (Tick t # rest) =
        after [Poll 100,
               SendFrame
                 \<lparr>FrameName = ''response'',
                  Fields = [\<lparr>Name = ''time'', Vals = TimeVec [now t]\<rparr>],
                  Meta = None\<rparr>]
          (stream_loop rest)"
    by (simp del: stream_loop.simps(3) add: stream_loop_message)
qed

text \<open>
  A stream that polls the message \<^verbatim>\<open>{"a": 1.0}\<close> and then the message \<^verbatim>\<open>{}\<close>: the
  first frame has the time field and the field \<open>a\<close>, the second the time field alone.
\<close>

theorem streamed_frame_shape_witness:
  \<open>SendFrame
     \<lparr>FrameName = ''response'',
      Fields =
        [\<lparr>Name = ''time'', Vals = TimeVec [2000]\<rparr>,
         \<lparr>Name = ''a'', Vals = Float64Vec [0x3FF0000000000000]\<rparr>],
      Meta = None\<rparr>
     \<in> set (fst (RunStream
          \<lparr>client = \<lparr>Consumer = None, BootstrapServers = ''localhost:9092'',
                      AutoOffsetReset = ''latest''\<rparr>\<rparr>
          \<lparr>RunPath = ''stream'', RunData = []\<rparr>
          \<lparr>new_consumer_err = None, assign_err = None,
           iterations =
             [Tick \<lparr>polled = Some (MessageEv ''{"a": 1.0}'' 1000),
                    unmarshal = ([(''a'', 0x3FF0000000000000)], None),
                    now = 2000, send_err = None\<rparr>,
              Tick \<lparr>polled = Some (MessageEv ''{}'' 2500), unmarshal = ([], None),
                    now = 3000, send_err = None\<rparr>]\<rparr>)) \<and>
   stream_frame_shape
     \<lparr>FrameName = ''response'',
      Fields =
        [\<lparr>Name = ''time'', Vals = TimeVec [2000]\<rparr>,
         \<lparr>Name = ''a'', Vals = Float64Vec [0x3FF0000000000000]\<rparr>],
      Meta = None\<rparr> \<and>
   stream_loop
     [Tick \<lparr>polled = Some (MessageEv ''{}'' 2500), unmarshal = ([], None),
            now = 3000, send_err = None\<rparr>] =
   ([Poll 100,
     SendFrame
       \<lparr>FrameName = ''response'',
        Fields = [\<lparr>Name = ''time'', Vals = TimeVec [3000]\<rparr>],
        Meta = None\<rparr>],
    Inr Waiting)\<close>
  using streamed_frame_shape
    [where f = "\<lparr>FrameName = ''response'',
      Fields =
        [\<lparr>Name = ''time'', Vals = TimeVec [2000]\<rparr>,
         \<lparr>Name = ''a'', Vals = Float64Vec [0x3FF0000000000000]\<rparr>],
      Meta = None\<rparr>"
       and ds = "\<lparr>client = \<lparr>Consumer = None, BootstrapServers = ''localhost:9092'',
                      AutoOffsetReset = ''latest''\<rparr>\<rparr>"
       and req = "\<lparr>RunPath = ''stream'', RunData = []\<rparr>"
       and env = \<open>\<lparr>new_consumer_err = None, assign_err = None,
           iterations =
             [Tick \<lparr>polled = Some (MessageEv ''{"a": 1.0}'' 1000),
                    unmarshal = ([(''a'', 0x3FF0000000000000)], None),
                    now = 2000, send_err = None\<rparr>,
              Tick \<lparr>polled = Some (MessageEv ''{}'' 2500), unmarshal = ([], None),
                    now = 3000, send_err = None\<rparr>]\<rparr>\<close>
       and t = "\<lparr>polled = Some (MessageEv ''{}'' 2500), unmarshal = ([], None),
            now = 3000, send_err = None\<rparr>"
       and v = "''{}''" and ts = 2500 and rest = "[]"]
  by (simp add: RunStream_def ConsumerInitialize_def TopicAssign_def ConsumerPull_def
      stream_frame_built after_def Let_def)

end
